theory Spec2Isabelle
  imports Main
begin

section \<open>Data model\<close>

text \<open>
  The Mongoose schema \<^verbatim>\<open>subscriptionSchema\<close> (models/Subscription): one document per
  subscriber. A \<^verbatim>\<open>Date\<close> is its \<^verbatim>\<open>getTime()\<close> value, an integer number of
  milliseconds since the epoch; all date arithmetic of the source is done on these
  numbers, which are exact for every instant a \<^verbatim>\<open>Date\<close> can hold (the limits of
  \<^verbatim>\<open>Date\<close>, 8.64e15 ms on either side of the epoch, are not part of the model). The \<^verbatim>\<open>months\<close> field is a JavaScript number that the slash command fills from
  an integer option, so it is an integer here. The document's \<^verbatim>\<open>_id\<close> is the field
  \<open>sub_id\<close>. The collection is the list of its documents.
\<close>

type_synonym time = int

record subscription =
  sub_id :: nat
  discordId :: string
  roleId :: string
  months :: int
  startAt :: time
  expiresAt :: time
  notified1Day :: bool
  notified30Minutes :: bool

type_synonym store = "subscription list"

datatype error = ValidationError | DuplicateKeyError | DocumentNotFoundError

section \<open>utils/timeUtils\<close>

record time_remaining =
  days :: int
  hours :: int
  minutes :: int
  expired :: bool

text \<open>\<^verbatim>\<open>getTimeRemaining(expiresAt)\<close>; the clock reading \<^verbatim>\<open>new Date()\<close> is the
  parameter \<open>now\<close>. \<^verbatim>\<open>Math.floor\<close> of a quotient of non-negative integers is \<open>div\<close>.\<close>

definition getTimeRemaining :: "time \<Rightarrow> time \<Rightarrow> time_remaining" where
  "getTimeRemaining now expiry =
     (let timeDiff = expiry - now in
      if timeDiff \<le> 0 then \<lparr>days = 0, hours = 0, minutes = 0, expired = True\<rparr>
      else \<lparr>days = timeDiff div (1000 * 60 * 60 * 24),
            hours = (timeDiff mod (1000 * 60 * 60 * 24)) div (1000 * 60 * 60),
            minutes = (timeDiff mod (1000 * 60 * 60)) div (1000 * 60),
            expired = False\<rparr>)"

text \<open>\<^verbatim>\<open>addMonths(date, months)\<close>: each month is 30 days.\<close>

definition addMonths :: "time \<Rightarrow> int \<Rightarrow> time" where
  "addMonths date mths = (let daysToAdd = mths * 30 in date + daysToAdd * 24 * 60 * 60 * 1000)"

section \<open>models/Subscription\<close>

text \<open>
  The validators of the schema, run by \<^verbatim>\<open>save()\<close> before it writes: the two required
  strings must be non-empty, and \<^verbatim>\<open>months\<close> has \<^verbatim>\<open>min: 1\<close> and \<^verbatim>\<open>max: 10\<close>. The
  required dates and the number are always present in a \<open>subscription\<close>.
\<close>

definition validate :: "subscription \<Rightarrow> bool" where
  "validate s \<longleftrightarrow> discordId s \<noteq> [] \<and> roleId s \<noteq> [] \<and> 1 \<le> months s \<and> months s \<le> 10"

text \<open>The virtual \<^verbatim>\<open>isActive\<close>.\<close>

definition isActive :: "time \<Rightarrow> subscription \<Rightarrow> bool" where
  "isActive now s \<longleftrightarrow> expiresAt s > now"

text \<open>\<^verbatim>\<open>Subscription.findOne({ discordId: userId })\<close>.\<close>

definition findOne :: "store \<Rightarrow> string \<Rightarrow> subscription option" where
  "findOne st userId = find (\<lambda>r. discordId r = userId) st"

text \<open>\<^verbatim>\<open>findByIdAndDelete(id)\<close> and \<^verbatim>\<open>findByIdAndUpdate(id, { notified...: true })\<close>.\<close>

definition findByIdAndDelete :: "nat \<Rightarrow> store \<Rightarrow> store" where
  "findByIdAndDelete i st = filter (\<lambda>r. sub_id r \<noteq> i) st"

definition findByIdAndUpdate :: "nat \<Rightarrow> (subscription \<Rightarrow> subscription) \<Rightarrow> store \<Rightarrow> store" where
  "findByIdAndUpdate i upd st = map (\<lambda>r. if sub_id r = i then upd r else r) st"

text \<open>
  \<^verbatim>\<open>save()\<close> of a document that was loaded from the collection: the validators run
  first, then the document is written back under its \<^verbatim>\<open>_id\<close>.
\<close>

definition save_existing :: "subscription \<Rightarrow> store \<Rightarrow> error + (subscription \<times> store)" where
  "save_existing d st =
     (if \<not> validate d then Inl ValidationError
      else if sub_id d \<notin> set (map sub_id st) then Inl DocumentNotFoundError
      else Inr (d, findByIdAndUpdate (sub_id d) (\<lambda>_. d) st))"

text \<open>
  \<^verbatim>\<open>save()\<close> of a new document: the validators run first, the unique index on
  \<^verbatim>\<open>discordId\<close> rejects a second document of the same subscriber, and the document is
  inserted.
\<close>

definition save_new :: "subscription \<Rightarrow> store \<Rightarrow> error + (subscription \<times> store)" where
  "save_new d st =
     (if \<not> validate d then Inl ValidationError
      else if findOne st (discordId d) \<noteq> None then Inl DuplicateKeyError
      else Inr (d, st @ [d]))"

text \<open>The identifier given to a new document: one that no document of the collection has.\<close>

definition fresh_id :: "store \<Rightarrow> nat" where
  "fresh_id st = fold (\<lambda>r m. max (Suc (sub_id r)) m) st 0"

text \<open>\<^verbatim>\<open>new Subscription({ discordId, roleId, months, startAt, expiresAt })\<close>: the two
  notification flags take their default \<^verbatim>\<open>false\<close>.\<close>

definition new_Subscription :: "nat \<Rightarrow> string \<Rightarrow> string \<Rightarrow> int \<Rightarrow> time \<Rightarrow> time \<Rightarrow> subscription" where
  "new_Subscription oid userId rid mths start expiry =
     \<lparr>sub_id = oid, discordId = userId, roleId = rid, months = mths, startAt = start,
      expiresAt = expiry, notified1Day = False, notified30Minutes = False\<rparr>"

text \<open>The instance method \<^verbatim>\<open>extend(additionalMonths)\<close> (the name \<open>extend\<close> is taken by the record package).\<close>

definition extend_subscription :: "subscription \<Rightarrow> int \<Rightarrow> store \<Rightarrow> error + (subscription \<times> store)" where
  "extend_subscription this additionalMonths st =
     (let daysToAdd = additionalMonths * 30;
          this1 = this\<lparr>expiresAt := expiresAt this + daysToAdd * 24 * 60 * 60 * 1000\<rparr>;
          this2 = this1\<lparr>months := months this1 + additionalMonths\<rparr>;
          this3 = this2\<lparr>notified1Day := False\<rparr>;
          this4 = this3\<lparr>notified30Minutes := False\<rparr>
      in save_existing this4 st)"

text \<open>The statics \<^verbatim>\<open>findExpired\<close> (\<^verbatim>\<open>$lte\<close>) and \<^verbatim>\<open>findActive\<close> (\<^verbatim>\<open>$gt\<close>).\<close>

definition findExpired :: "time \<Rightarrow> store \<Rightarrow> subscription list" where
  "findExpired now st = filter (\<lambda>r. expiresAt r \<le> now) st"

definition findActive :: "time \<Rightarrow> store \<Rightarrow> subscription list" where
  "findActive now st = filter (\<lambda>r. expiresAt r > now) st"

section \<open>services/subscriptionService\<close>

record add_result =
  subscription :: subscription
  isNew :: bool
  oldExpiry :: "time option"

text \<open>\<^verbatim>\<open>addSubscription(userId, months, roleId)\<close>. An error of \<^verbatim>\<open>save()\<close> is logged and
  thrown again; nothing was written then.\<close>

definition addSubscription ::
  "time \<Rightarrow> store \<Rightarrow> string \<Rightarrow> int \<Rightarrow> string \<Rightarrow> error + (add_result \<times> store)" where
  "addSubscription now st userId mths rid =
     (case findOne st userId of
        Some existingSubscription \<Rightarrow>
          (let old = expiresAt existingSubscription in
           case extend_subscription existingSubscription mths st of
             Inl e \<Rightarrow> Inl e
           | Inr (sub, st') \<Rightarrow>
               Inr (\<lparr>subscription = sub, isNew = False, oldExpiry = Some old\<rparr>, st'))
      | None \<Rightarrow>
          (let start = now;
               expiry = addMonths start mths;
               sub = new_Subscription (fresh_id st) userId rid mths start expiry
           in case save_new sub st of
                Inl e \<Rightarrow> Inl e
              | Inr (sub', st') \<Rightarrow>
                  Inr (\<lparr>subscription = sub', isNew = True, oldExpiry = None\<rparr>, st')))"

text \<open>\<^verbatim>\<open>getExpiredSubscriptions()\<close>.\<close>

definition getExpiredSubscriptions :: "time \<Rightarrow> store \<Rightarrow> subscription list" where
  "getExpiredSubscriptions now st = findExpired now st"

text \<open>\<^verbatim>\<open>getSubscriptionsExpiringIn1Day()\<close>: \<^verbatim>\<open>$gte\<close> and \<^verbatim>\<open>$lte\<close> on \<^verbatim>\<open>expiresAt\<close>,
  \<^verbatim>\<open>$ne: true\<close> on the flag.\<close>

definition getSubscriptionsExpiringIn1Day :: "time \<Rightarrow> store \<Rightarrow> subscription list" where
  "getSubscriptionsExpiringIn1Day now st =
     (let oneDayFromNow = now + 24 * 60 * 60 * 1000;
          oneDayTenMinutesFromNow = now + (24 * 60 + 10) * 60 * 1000
      in filter (\<lambda>r. expiresAt r \<ge> oneDayFromNow \<and> expiresAt r \<le> oneDayTenMinutesFromNow
                     \<and> notified1Day r \<noteq> True) st)"

text \<open>\<^verbatim>\<open>getSubscriptionsExpiringIn30Minutes()\<close>.\<close>

definition getSubscriptionsExpiringIn30Minutes :: "time \<Rightarrow> store \<Rightarrow> subscription list" where
  "getSubscriptionsExpiringIn30Minutes now st =
     (let thirtyMinutesFromNow = now + 30 * 60 * 1000;
          thirtyFiveMinutesFromNow = now + 35 * 60 * 1000
      in filter (\<lambda>r. expiresAt r \<ge> thirtyMinutesFromNow \<and> expiresAt r \<le> thirtyFiveMinutesFromNow
                     \<and> notified30Minutes r \<noteq> True) st)"

subsection \<open>The chat platform\<close>

text \<open>
  What the Discord client answers is outside the program; it is a parameter of the
  sweeps. \<open>members_fetch g u\<close>: \<^verbatim>\<open>guild.members.fetch(u)\<close> resolves to a member (a
  rejection is turned into \<^verbatim>\<open>null\<close> by the \<^verbatim>\<open>.catch\<close> at the call).
  \<open>roles_cache_has g u r\<close>: \<^verbatim>\<open>member.roles.cache.has(r)\<close>. \<open>roles_remove g u r\<close>:
  \<^verbatim>\<open>member.roles.remove(r)\<close> resolves; \<open>False\<close> when it throws. \<open>users_fetch g u\<close>:
  the outcome of \<^verbatim>\<open>client.users.fetch(u)\<close>. \<open>user_send g u\<close>: \<^verbatim>\<open>user.send(...)\<close>
  resolves; \<open>False\<close> when it throws.
\<close>

datatype fetch_result = Rejected | NoUser | FoundUser

record discord =
  members_fetch :: "string \<Rightarrow> bool"
  roles_cache_has :: "string \<Rightarrow> string \<Rightarrow> bool"
  roles_remove :: "string \<Rightarrow> string \<Rightarrow> bool"
  users_fetch :: "string \<Rightarrow> fetch_result"
  user_send :: "string \<Rightarrow> bool"

subsection \<open>Expiration warnings\<close>

text \<open>The \<^verbatim>\<open>type\<close> argument: the callers pass \<^verbatim>\<open>'1day'\<close> or \<^verbatim>\<open>'30minutes'\<close>.\<close>

datatype warning_type = OneDay | ThirtyMinutes

type_synonym dm = "string \<times> warning_type"

text \<open>
  \<^verbatim>\<open>sendExpirationWarningToUser(client, userId, subscription, type)\<close>. The direct
  messages delivered so far are the list \<open>dms\<close>. The whole body is in one
  \<^verbatim>\<open>try\<close>: a rejected fetch or a failed \<^verbatim>\<open>user.send\<close> is logged and the flag is not
  written; a missing user returns early.
\<close>

definition sendExpirationWarningToUser ::
  "discord \<Rightarrow> string \<Rightarrow> subscription \<Rightarrow> warning_type \<Rightarrow> dm list \<times> store \<Rightarrow> dm list \<times> store" where
  "sendExpirationWarningToUser client userId sub ty w =
     (case users_fetch client userId of
        Rejected \<Rightarrow> w
      | NoUser \<Rightarrow> w
      | FoundUser \<Rightarrow>
          if \<not> user_send client userId then w
          else (fst w @ [(userId, ty)],
                case ty of
                  OneDay \<Rightarrow> findByIdAndUpdate (sub_id sub) (\<lambda>r. r\<lparr>notified1Day := True\<rparr>) (snd w)
                | ThirtyMinutes \<Rightarrow>
                    findByIdAndUpdate (sub_id sub) (\<lambda>r. r\<lparr>notified30Minutes := True\<rparr>) (snd w)))"

text \<open>The two \<^verbatim>\<open>for\<close> loops of \<^verbatim>\<open>processExpirationWarnings\<close>: the counter is incremented
  whenever the call returns, and it always returns.\<close>

fun warnings_loop ::
  "discord \<Rightarrow> warning_type \<Rightarrow> subscription list \<Rightarrow> nat \<Rightarrow> dm list \<times> store
     \<Rightarrow> nat \<times> dm list \<times> store" where
  "warnings_loop client ty [] processed w = (processed, w)"
| "warnings_loop client ty (sub # rest) processed w =
     warnings_loop client ty rest (Suc processed)
       (sendExpirationWarningToUser client (discordId sub) sub ty w)"

record warnings_result =
  oneDayWarnings :: nat
  thirtyMinuteWarnings :: nat

text \<open>\<^verbatim>\<open>processExpirationWarnings(client)\<close>: both queries run first, then the two loops.
  Each query reads the clock itself: \<open>now\<close> is the reading of the 1-day query and
  \<open>now'\<close> that of the 30-minute query. The result carries the counts the source
  returns, the messages delivered and the collection afterwards.\<close>

definition processExpirationWarnings ::
  "discord \<Rightarrow> time \<Rightarrow> time \<Rightarrow> store \<Rightarrow> warnings_result \<times> dm list \<times> store" where
  "processExpirationWarnings client now now' st =
     (let oneDay = getSubscriptionsExpiringIn1Day now st;
          thirtyMinute = getSubscriptionsExpiringIn30Minutes now' st;
          r1 = warnings_loop client OneDay oneDay 0 ([], st);
          r2 = warnings_loop client ThirtyMinutes thirtyMinute 0 (snd r1)
      in (\<lparr>oneDayWarnings = fst r1, thirtyMinuteWarnings = fst r2\<rparr>, snd r2))"

subsection \<open>Expired subscriptions\<close>

text \<open>
  The loop of \<^verbatim>\<open>processExpiredSubscriptions(guild, client)\<close> over the selected
  documents. Role removal, deletion and the push onto \<^verbatim>\<open>processedUsers\<close> are in one
  \<^verbatim>\<open>try\<close> per document: when \<^verbatim>\<open>member.roles.remove\<close> throws, the \<^verbatim>\<open>catch\<close> logs a
  warning and the loop goes on with the next document. The channel notification
  catches its own errors and changes nothing here.
\<close>

fun processExpired_loop ::
  "discord \<Rightarrow> subscription list \<Rightarrow> string list \<Rightarrow> store \<Rightarrow> string list \<times> store" where
  "processExpired_loop guild [] processedUsers st = (processedUsers, st)"
| "processExpired_loop guild (sub # rest) processedUsers st =
     (let member = members_fetch guild (discordId sub) in
      if member \<and> roles_cache_has guild (discordId sub) (roleId sub) then
        if roles_remove guild (discordId sub) (roleId sub) then
          processExpired_loop guild rest (processedUsers @ [discordId sub])
            (findByIdAndDelete (sub_id sub) st)
        else processExpired_loop guild rest processedUsers st
      else
        processExpired_loop guild rest (processedUsers @ [discordId sub])
          (findByIdAndDelete (sub_id sub) st))"

definition processExpiredSubscriptions ::
  "discord \<Rightarrow> time \<Rightarrow> store \<Rightarrow> string list \<times> store" where
  "processExpiredSubscriptions guild now st =
     processExpired_loop guild (getExpiredSubscriptions now st) [] st"

section \<open>commands/subscription\<close>

text \<open>The status line of \<^verbatim>\<open>handleStatus\<close>: \<^verbatim>\<open>isActive = !timeRemaining.expired\<close>.\<close>

definition handleStatus_status :: "time \<Rightarrow> subscription \<Rightarrow> string" where
  "handleStatus_status now s =
     (let timeRemaining = getTimeRemaining now (expiresAt s);
          active = \<not> expired timeRemaining
      in if active then ''ACTIVE'' else ''EXPIRED'')"

section \<open>Auxiliary notions\<close>

text \<open>The role revocation of a selected document throws: the member was fetched, holds
  the role, and \<^verbatim>\<open>member.roles.remove\<close> fails.\<close>

definition revocation_throws :: "discord \<Rightarrow> subscription \<Rightarrow> bool" where
  "revocation_throws guild s \<longleftrightarrow>
     members_fetch guild (discordId s) \<and> roles_cache_has guild (discordId s) (roleId s)
     \<and> \<not> roles_remove guild (discordId s) (roleId s)"

text \<open>A direct message to a user gets through: the user is fetched and \<^verbatim>\<open>user.send\<close>
  resolves.\<close>

definition deliverable :: "discord \<Rightarrow> string \<Rightarrow> bool" where
  "deliverable client u \<longleftrightarrow> users_fetch client u = FoundUser \<and> user_send client u"

text \<open>The flag that \<open>sendExpirationWarningToUser\<close> writes for each kind of warning.\<close>

definition mark_notified :: "warning_type \<Rightarrow> subscription \<Rightarrow> subscription" where
  "mark_notified ty r =
     (case ty of OneDay \<Rightarrow> r\<lparr>notified1Day := True\<rparr>
               | ThirtyMinutes \<Rightarrow> r\<lparr>notified30Minutes := True\<rparr>)"

text \<open>
  The two warnings side by side. \<open>warning_selection ty now now' st\<close> is the query of
  the kind \<open>ty\<close> as a run of the sweep with the clock readings \<open>now\<close> (1-day query)
  and \<open>now'\<close> (30-minute query) evaluates it; \<open>notified ty\<close> is the flag of that
  kind; \<open>other_type ty\<close> is the other kind. \<open>other_window_closed ty now now' s\<close>: at
  these clock readings the record \<open>s\<close> is outside the time window of the other kind
  (for the 1-day warning, more than 35 minutes before expiry; for the 30-minute
  warning, less than 24 hours before expiry). \<open>messages_to u dms\<close> are the direct
  messages, of either kind, delivered to the user \<open>u\<close>.
\<close>

definition warning_selection :: "warning_type \<Rightarrow> time \<Rightarrow> time \<Rightarrow> store \<Rightarrow> subscription list" where
  "warning_selection ty now now' st =
     (case ty of OneDay \<Rightarrow> getSubscriptionsExpiringIn1Day now st
               | ThirtyMinutes \<Rightarrow> getSubscriptionsExpiringIn30Minutes now' st)"

definition notified :: "warning_type \<Rightarrow> subscription \<Rightarrow> bool" where
  "notified ty r = (case ty of OneDay \<Rightarrow> notified1Day r | ThirtyMinutes \<Rightarrow> notified30Minutes r)"

definition other_type :: "warning_type \<Rightarrow> warning_type" where
  "other_type ty = (case ty of OneDay \<Rightarrow> ThirtyMinutes | ThirtyMinutes \<Rightarrow> OneDay)"

definition other_window_closed :: "warning_type \<Rightarrow> time \<Rightarrow> time \<Rightarrow> subscription \<Rightarrow> bool" where
  "other_window_closed ty now now' s =
     (case ty of OneDay \<Rightarrow> now' + 35 * 60 * 1000 < expiresAt s
               | ThirtyMinutes \<Rightarrow> expiresAt s < now + 24 * 60 * 60 * 1000)"

definition messages_to :: "string \<Rightarrow> dm list \<Rightarrow> dm list" where
  "messages_to u dms = filter (\<lambda>m. fst m = u) dms"

text \<open>The 1-day eligibility window in the words of the specification's state table:
  \<open>now\<close> within \<open>[expiresAt - 24h, expiresAt - 24h + 10min)\<close> and the flag false.\<close>

definition spec_warned_1day :: "time \<Rightarrow> subscription \<Rightarrow> bool" where
  "spec_warned_1day now s \<longleftrightarrow>
     expiresAt s - 24 * 60 * 60 * 1000 \<le> now
     \<and> now < expiresAt s - 24 * 60 * 60 * 1000 + 10 * 60 * 1000
     \<and> notified1Day s = False"

text \<open>Concrete data: a document of subscriber U1, and a chat platform on which every
  member is found and holds the role, and role removal succeeds or throws as told.\<close>

definition ex_sub :: "time \<Rightarrow> int \<Rightarrow> bool \<Rightarrow> bool \<Rightarrow> subscription" where
  "ex_sub expiry mths n1 n30 =
     \<lparr>sub_id = 1, discordId = ''U1'', roleId = ''R1'', months = mths, startAt = 0,
      expiresAt = expiry, notified1Day = n1, notified30Minutes = n30\<rparr>"

text \<open>A document of a second subscriber U2, whose 1-day warning has been sent.\<close>

definition ex_sub2 :: "time \<Rightarrow> subscription" where
  "ex_sub2 expiry =
     \<lparr>sub_id = 2, discordId = ''U2'', roleId = ''R1'', months = 1, startAt = 0,
      expiresAt = expiry, notified1Day = True, notified30Minutes = False\<rparr>"

definition ex_guild :: "bool \<Rightarrow> discord" where
  "ex_guild removal_ok =
     \<lparr>members_fetch = (\<lambda>_. True), roles_cache_has = (\<lambda>_ _. True),
      roles_remove = (\<lambda>_ _. removal_ok), users_fetch = (\<lambda>_. FoundUser),
      user_send = (\<lambda>_. True)\<rparr>"

section \<open>The expiry query\<close>

text \<open>
  C9. The expiry sweep at time \<open>now\<close> selects exactly the stored records with
  \<open>expiresAt \<le> now\<close>: of three records expiring one second before \<open>now\<close>, at \<open>now\<close> and
  one second after \<open>now\<close>, it selects the first two, in the order of the collection, and
  not the third.
\<close>

theorem expiry_sweep_selection:
  "set (getExpiredSubscriptions now st) = {r. r \<in> set st \<and> expiresAt r \<le> now}
   \<and> getExpiredSubscriptions now
        [a\<lparr>expiresAt := now - 1000\<rparr>, b\<lparr>expiresAt := now\<rparr>, c\<lparr>expiresAt := now + 1000\<rparr>]
      = [a\<lparr>expiresAt := now - 1000\<rparr>, b\<lparr>expiresAt := now\<rparr>]"
  by (auto simp: getExpiredSubscriptions_def findExpired_def)

section \<open>Status display against the queries\<close>

text \<open>
  C10. At every instant \<open>now\<close> and for every record, the \<open>expired\<close> verdict of
  \<open>getTimeRemaining\<close> is the negation of the virtual \<open>isActive\<close>; hence the status line is
  ACTIVE exactly for the records the active query returns and EXPIRED exactly for the
  records the expired query returns, the boundary \<open>expiresAt = now\<close> included.
\<close>

theorem expired_verdict_negates_isActive:
  "expired (getTimeRemaining now (expiresAt s)) = (\<not> isActive now s)
   \<and> (s \<in> set (findActive now st)) = (s \<in> set st \<and> handleStatus_status now s = ''ACTIVE'')
   \<and> (s \<in> set (findExpired now st)) = (s \<in> set st \<and> handleStatus_status now s = ''EXPIRED'')
   \<and> expired (getTimeRemaining now now)"
  by (auto simp: getTimeRemaining_def isActive_def findActive_def findExpired_def
      handleStatus_status_def Let_def)

section \<open>The 1-day warning query\<close>

text \<open>At \<open>now = 0\<close> a record expiring in 24 h 5 min is selected although \<open>now\<close> is
  before \<open>expiresAt - 24h\<close>, and a record expiring in 23 h 59 min is not selected
  although \<open>now\<close> is inside the table's window.\<close>

theorem one_day_selection_counterexample:
  "ex_sub 86700000 1 False False \<in> set (getSubscriptionsExpiringIn1Day 0 [ex_sub 86700000 1 False False])
   \<and> \<not> spec_warned_1day 0 (ex_sub 86700000 1 False False)
   \<and> ex_sub 86340000 1 False False \<notin> set (getSubscriptionsExpiringIn1Day 0 [ex_sub 86340000 1 False False])
   \<and> spec_warned_1day 0 (ex_sub 86340000 1 False False)"
  by (simp add: getSubscriptionsExpiringIn1Day_def spec_warned_1day_def ex_sub_def)

text \<open>
  C2 (amended). A stored record is selected by the 1-day warning query at time \<open>now\<close>
  if and only if \<open>now\<close> lies in the closed interval
  \<open>[expiresAt - 24h - 10min, expiresAt - 24h]\<close>, that is
  \<open>now + 24h \<le> expiresAt \<le> now + 24h + 10min\<close>, and \<open>notified1Day\<close> is false.
\<close>

theorem one_day_selection_window:
  "s \<in> set (getSubscriptionsExpiringIn1Day now st) \<longleftrightarrow>
     s \<in> set st \<and> expiresAt s - 24 * 60 * 60 * 1000 - 10 * 60 * 1000 \<le> now
     \<and> now \<le> expiresAt s - 24 * 60 * 60 * 1000 \<and> notified1Day s = False"
  by (auto simp: getSubscriptionsExpiringIn1Day_def)

text \<open>
  C4. At sweep time \<open>now\<close>, a stored record with the flag false is eligible for the
  1-day warning when \<open>expiresAt = now + 24h\<close>, not eligible when
  \<open>expiresAt = now + 24h + 11min\<close>, and not eligible when \<open>expiresAt = now + 24h - 1min\<close>.
\<close>

theorem warning_window_boundaries:
  assumes "s \<in> set st" and "notified1Day s = False"
  shows "(expiresAt s = now + 24 * 60 * 60 * 1000 \<longrightarrow> s \<in> set (getSubscriptionsExpiringIn1Day now st))
       \<and> (expiresAt s = now + 24 * 60 * 60 * 1000 + 11 * 60 * 1000 \<longrightarrow> s \<notin> set (getSubscriptionsExpiringIn1Day now st))
       \<and> (expiresAt s = now + 24 * 60 * 60 * 1000 - 1 * 60 * 1000 \<longrightarrow> s \<notin> set (getSubscriptionsExpiringIn1Day now st))"
  using assms by (auto simp: getSubscriptionsExpiringIn1Day_def)

theorem warning_window_boundaries_witness:
  "ex_sub 86400000 1 False False \<in> set (getSubscriptionsExpiringIn1Day 0 [ex_sub 86400000 1 False False])
   \<and> ex_sub 87060000 1 False False \<notin> set (getSubscriptionsExpiringIn1Day 0 [ex_sub 87060000 1 False False])
   \<and> ex_sub 86340000 1 False False \<notin> set (getSubscriptionsExpiringIn1Day 0 [ex_sub 86340000 1 False False])"
  using warning_window_boundaries [of "ex_sub 86400000 1 False False" "[ex_sub 86400000 1 False False]" 0]
    warning_window_boundaries [of "ex_sub 87060000 1 False False" "[ex_sub 87060000 1 False False]" 0]
    warning_window_boundaries [of "ex_sub 86340000 1 False False" "[ex_sub 86340000 1 False False]" 0]
  by (simp add: ex_sub_def)

section \<open>Add or extend\<close>

lemma findOne_Some: "findOne st u = Some s \<Longrightarrow> s \<in> set st \<and> discordId s = u"
  by (auto simp: findOne_def find_Some_iff)

lemma findOne_after_save:
  "findOne st u = Some s \<Longrightarrow> discordId d = u \<Longrightarrow> sub_id d = sub_id s \<Longrightarrow>
   findOne (findByIdAndUpdate (sub_id s) (\<lambda>_. d) st) u = Some d"
  by (induction st) (auto simp: findOne_def findByIdAndUpdate_def split: if_splits)

lemma extend_subscription_eq:
  assumes "s \<in> set st" and "discordId s \<noteq> []" and "roleId s \<noteq> []"
  shows "extend_subscription s m st =
     (if 1 \<le> months s + m \<and> months s + m \<le> 10
      then Inr (s\<lparr>expiresAt := expiresAt s + m * 30 * 24 * 60 * 60 * 1000, months := months s + m,
                  notified1Day := False, notified30Minutes := False\<rparr>,
                findByIdAndUpdate (sub_id s)
                  (\<lambda>_. s\<lparr>expiresAt := expiresAt s + m * 30 * 24 * 60 * 60 * 1000, months := months s + m,
                  notified1Day := False, notified30Minutes := False\<rparr>) st)
      else Inl ValidationError)"
  using assms by (auto simp: extend_subscription_def save_existing_def validate_def Let_def)


lemma addSubscription_extends:
  assumes "findOne st u = Some s" and "u \<noteq> []" and "roleId s \<noteq> []"
  shows "addSubscription now st u m rid =
     (if 1 \<le> months s + m \<and> months s + m \<le> 10
      then Inr (\<lparr>subscription =
                   s\<lparr>expiresAt := expiresAt s + m * 30 * 24 * 60 * 60 * 1000,
                     months := months s + m, notified1Day := False, notified30Minutes := False\<rparr>,
                 isNew = False, oldExpiry = Some (expiresAt s)\<rparr>,
                findByIdAndUpdate (sub_id s)
                  (\<lambda>_. s\<lparr>expiresAt := expiresAt s + m * 30 * 24 * 60 * 60 * 1000,
                     months := months s + m, notified1Day := False, notified30Minutes := False\<rparr>) st)
      else Inl ValidationError)"
proof -
  from assms(1) have mem: "s \<in> set st" and did: "discordId s = u"
    using findOne_Some by blast+
  from did assms(2) have "discordId s \<noteq> []" by simp
  from extend_subscription_eq [OF mem this assms(3)] assms(1) show ?thesis
    by (simp add: addSubscription_def)
qed

text \<open>When an extension of a stored record succeeds: exactly when the cumulative total
  \<open>months + additionalMonths\<close> is within the bounds \<open>[1, 10]\<close> that the schema puts on
  the stored field; past 10 the save is rejected.\<close>

lemma extension_succeeds_iff:
  assumes "findOne st u = Some s" and "u \<noteq> []" and "roleId s \<noteq> []"
  shows "(\<exists>r. addSubscription now st u m rid = Inr r) = (1 \<le> months s + m \<and> months s + m \<le> 10)
       \<and> (10 < months s + m \<longrightarrow>
            addSubscription now st u m rid = Inl ValidationError
            \<and> extend_subscription s m st = Inl ValidationError)"
proof -
  from assms(1) have mem: "s \<in> set st" and did: "discordId s = u"
    using findOne_Some by blast+
  from did assms(2) have ne: "discordId s \<noteq> []" by simp
  show ?thesis
    by (simp add: addSubscription_extends [OF assms] extend_subscription_eq [OF mem ne assms(3)])
qed

text \<open>
  C3. The claim: an extension that raises the cumulative months of a record above 10
  (months 8 extended by 5) persists. On the code it does not: the record of subscriber
  U1 with 8 months is found, \<open>extend\<close> raises \<open>months\<close> to 13, the validators of
  \<open>save\<close> reject the document, and add-or-extend ends with the validation error,
  nothing written; an extension of the same record by 2 months is stored.
\<close>

theorem extension_past_ten_months_rejected:
  "findOne [ex_sub 1000 8 False False] ''U1'' = Some (ex_sub 1000 8 False False)
   \<and> extend_subscription (ex_sub 1000 8 False False) 5 [ex_sub 1000 8 False False] = Inl ValidationError
   \<and> addSubscription 0 [ex_sub 1000 8 False False] ''U1'' 5 ''R1'' = Inl ValidationError
   \<and> addSubscription 0 [ex_sub 1000 8 False False] ''U1'' 2 ''R1'' =
       Inr (\<lparr>subscription = ex_sub (1000 + 5184000000) 10 False False, isNew = False,
             oldExpiry = Some 1000\<rparr>, [ex_sub (1000 + 5184000000) 10 False False])"
  by (simp add: addSubscription_def extend_subscription_def save_existing_def validate_def
      findOne_def findByIdAndUpdate_def ex_sub_def Let_def)

text \<open>
  C5. Every successful extension of a record returns it, and stores it, with both
  notification flags false, whatever they were before, and with \<open>expiresAt\<close> advanced by
  30 days per additional month.
\<close>

theorem extension_resets_flags:
  assumes "extend_subscription s m st = Inr (s', st')"
  shows "notified1Day s' = False \<and> notified30Minutes s' = False
       \<and> expiresAt s' = expiresAt s + m * 30 * 24 * 60 * 60 * 1000
       \<and> s' \<in> set st'
       \<and> (\<forall>r \<in> set st'. sub_id r = sub_id s \<longrightarrow> notified1Day r = False \<and> notified30Minutes r = False)"
  using assms
  by (auto simp: extend_subscription_def save_existing_def Let_def findByIdAndUpdate_def
      split: if_splits)

theorem extension_resets_flags_witness:
  "\<exists>s' st'. extend_subscription (ex_sub 1000 3 True True) 2 [ex_sub 1000 3 True True] = Inr (s', st')
     \<and> notified1Day s' = False \<and> notified30Minutes s' = False \<and> s' \<in> set st'"
proof -
  obtain s' st' where
    e: "extend_subscription (ex_sub 1000 3 True True) 2 [ex_sub 1000 3 True True] = Inr (s', st')"
    by (simp add: extend_subscription_def save_existing_def validate_def findByIdAndUpdate_def
        ex_sub_def Let_def)
  from extension_resets_flags [OF e] e show ?thesis by blast
qed

text \<open>
  C6. Add-or-extend for a subscriber whose record has \<open>expiresAt = T\<close> and \<open>months = 3\<close>,
  with 2 additional months, yields and stores the record with \<open>expiresAt = T + 60 days\<close>
  and \<open>months = 5\<close> (every other field but the two flags, \<open>startAt\<close> among them, unchanged),
  reports \<open>isNew = false\<close> and the previous expiry \<open>T\<close>.
\<close>

theorem extension_additivity:
  assumes "findOne st u = Some s" and "expiresAt s = T" and "months s = 3"
    and "u \<noteq> []" and "roleId s \<noteq> []"
  shows "\<exists>st'. addSubscription now st u 2 rid =
           Inr (\<lparr>subscription = s\<lparr>expiresAt := T + 60 * (24 * 60 * 60 * 1000), months := 5,
                                  notified1Day := False, notified30Minutes := False\<rparr>,
                 isNew = False, oldExpiry = Some T\<rparr>, st')
         \<and> findOne st' u = Some (s\<lparr>expiresAt := T + 60 * (24 * 60 * 60 * 1000), months := 5,
                                  notified1Day := False, notified30Minutes := False\<rparr>)"
proof -
  let ?d = "s\<lparr>expiresAt := T + 60 * (24 * 60 * 60 * 1000), months := 5,
               notified1Day := False, notified30Minutes := False\<rparr>"
  from assms(1) have did: "discordId s = u" using findOne_Some by blast
  have "findOne (findByIdAndUpdate (sub_id s) (\<lambda>_. ?d) st) u = Some ?d"
    using findOne_after_save [OF assms(1), of ?d] did by simp
  moreover have "addSubscription now st u 2 rid =
      Inr (\<lparr>subscription = ?d, isNew = False, oldExpiry = Some T\<rparr>,
           findByIdAndUpdate (sub_id s) (\<lambda>_. ?d) st)"
    using addSubscription_extends [OF assms(1,4,5), of now 2 rid] assms(2,3) by simp
  ultimately show ?thesis by blast
qed

theorem extension_additivity_witness:
  "\<exists>st'. addSubscription 7 [ex_sub 1000 3 True False] ''U1'' 2 ''R2'' =
      Inr (\<lparr>subscription = ex_sub (1000 + 5184000000) 5 False False, isNew = False,
            oldExpiry = Some 1000\<rparr>, st')
     \<and> findOne st' ''U1'' = Some (ex_sub (1000 + 5184000000) 5 False False)"
  using extension_additivity [of "[ex_sub 1000 3 True False]" "''U1''" "ex_sub 1000 3 True False" 1000 7 "''R2''"]
  by (simp add: findOne_def ex_sub_def)

text \<open>
  C8. Add-or-extend with \<open>months = 3\<close> for a subscriber with no record creates and stores
  a record with \<open>startAt = now\<close>, \<open>expiresAt = startAt + 90 days\<close>, \<open>months = 3\<close>, both
  notification flags false, and reports \<open>isNew = true\<close>.
\<close>

theorem creation_of_new_record:
  assumes "findOne st u = None" and "u \<noteq> []" and "rid \<noteq> []"
  shows "addSubscription now st u 3 rid =
           Inr (\<lparr>subscription =
                   \<lparr>sub_id = fresh_id st, discordId = u, roleId = rid, months = 3, startAt = now,
                    expiresAt = now + 90 * (24 * 60 * 60 * 1000),
                    notified1Day = False, notified30Minutes = False\<rparr>,
                 isNew = True, oldExpiry = None\<rparr>,
                st @ [\<lparr>sub_id = fresh_id st, discordId = u, roleId = rid, months = 3, startAt = now,
                    expiresAt = now + 90 * (24 * 60 * 60 * 1000),
                    notified1Day = False, notified30Minutes = False\<rparr>])"
  using assms
  by (simp add: addSubscription_def save_new_def validate_def new_Subscription_def addMonths_def
      Let_def)

theorem creation_of_new_record_witness:
  "addSubscription 5000 [] ''U1'' 3 ''R1'' =
     Inr (\<lparr>subscription =
             \<lparr>sub_id = 0, discordId = ''U1'', roleId = ''R1'', months = 3, startAt = 5000,
              expiresAt = 7776005000, notified1Day = False, notified30Minutes = False\<rparr>,
           isNew = True, oldExpiry = None\<rparr>,
          [\<lparr>sub_id = 0, discordId = ''U1'', roleId = ''R1'', months = 3, startAt = 5000,
              expiresAt = 7776005000, notified1Day = False, notified30Minutes = False\<rparr>])"
  using creation_of_new_record [of "[]" "''U1''" "''R1''" 5000]
  by (simp add: findOne_def fresh_id_def)


section \<open>The expiry sweep\<close>

lemma processExpired_loop_store:
  "snd (processExpired_loop g xs acc st) =
     filter (\<lambda>r. sub_id r \<notin> set (map sub_id (filter (\<lambda>x. \<not> revocation_throws g x) xs))) st"
proof (induction xs arbitrary: acc st)
  case Nil
  show ?case by simp
next
  case (Cons x xs)
  show ?case
  proof (cases "revocation_throws g x")
    case True
    then show ?thesis
      using Cons.IH [of acc st] by (simp add: revocation_throws_def)
  next
    case False
    then have "processExpired_loop g (x # xs) acc st =
        processExpired_loop g xs (acc @ [discordId x]) (findByIdAndDelete (sub_id x) st)"
      by (auto simp: revocation_throws_def)
    then show ?thesis
      using False Cons.IH [of "acc @ [discordId x]" "findByIdAndDelete (sub_id x) st"]
      by (auto simp: findByIdAndDelete_def intro: filter_cong)
  qed
qed

lemma processExpired_loop_users:
  "fst (processExpired_loop g xs acc st) =
     acc @ map discordId (filter (\<lambda>x. \<not> revocation_throws g x) xs)"
proof (induction xs arbitrary: acc st)
  case Nil
  show ?case by simp
next
  case (Cons x xs)
  show ?case
  proof (cases "revocation_throws g x")
    case True
    then show ?thesis
      using Cons.IH [of acc st] by (simp add: revocation_throws_def)
  next
    case False
    then have "processExpired_loop g (x # xs) acc st =
        processExpired_loop g xs (acc @ [discordId x]) (findByIdAndDelete (sub_id x) st)"
      by (auto simp: revocation_throws_def)
    then show ?thesis
      using False Cons.IH [of "acc @ [discordId x]" "findByIdAndDelete (sub_id x) st"]
      by simp
  qed
qed

text \<open>An expired record whose role removal throws is still in the collection after the
  sweep.\<close>

theorem expiry_sweep_deletion_counterexample:
  "ex_sub 1000 1 False False \<in> set (getExpiredSubscriptions 1000 [ex_sub 1000 1 False False])
   \<and> revocation_throws (ex_guild False) (ex_sub 1000 1 False False)
   \<and> processExpiredSubscriptions (ex_guild False) 1000 [ex_sub 1000 1 False False]
       = ([], [ex_sub 1000 1 False False])"
  by (simp add: processExpiredSubscriptions_def getExpiredSubscriptions_def findExpired_def
      revocation_throws_def ex_guild_def ex_sub_def)

text \<open>
  C1 (amended). For every record selected by the expiry sweep, the sweep deletes the
  record in that run and reports its subscriber as processed unless the role
  revocation for that record throws (a member that cannot be fetched or does not hold
  the role does not stop the deletion); when the revocation throws, the record, in a
  collection with unique identifiers, is still stored after the run.
\<close>

theorem expiry_sweep_deletion:
  assumes "s \<in> set (getExpiredSubscriptions now st)"
  shows "(\<not> revocation_throws g s \<longrightarrow>
            sub_id s \<notin> set (map sub_id (snd (processExpiredSubscriptions g now st)))
            \<and> discordId s \<in> set (fst (processExpiredSubscriptions g now st)))
       \<and> (revocation_throws g s \<and> distinct (map sub_id st) \<longrightarrow>
            s \<in> set (snd (processExpiredSubscriptions g now st)))"
proof (intro conjI impI)
  assume nt: "\<not> revocation_throws g s"
  with assms have "sub_id s \<in> set (map sub_id (filter (\<lambda>x. \<not> revocation_throws g x)
      (getExpiredSubscriptions now st)))"
    by simp
  then show "sub_id s \<notin> set (map sub_id (snd (processExpiredSubscriptions g now st)))"
    by (auto simp: processExpiredSubscriptions_def processExpired_loop_store)
  from nt assms show "discordId s \<in> set (fst (processExpiredSubscriptions g now st))"
    by (auto simp: processExpiredSubscriptions_def processExpired_loop_users)
next
  assume a: "revocation_throws g s \<and> distinct (map sub_id st)"
  from assms have mem: "s \<in> set st"
    by (simp add: getExpiredSubscriptions_def findExpired_def)
  from a have inj: "inj_on sub_id (set st)" by (simp add: distinct_map)
  have "x = s" if "x \<in> set (getExpiredSubscriptions now st)" "sub_id x = sub_id s" for x
  proof -
    from that(1) have "x \<in> set st" by (simp add: getExpiredSubscriptions_def findExpired_def)
    with inj mem that(2) show ?thesis by (auto dest: inj_onD)
  qed
  with a mem show "s \<in> set (snd (processExpiredSubscriptions g now st))"
    by (auto simp: processExpiredSubscriptions_def processExpired_loop_store)
qed


theorem expiry_sweep_deletion_witness:
  "sub_id (ex_sub 1000 1 False False)
     \<notin> set (map sub_id (snd (processExpiredSubscriptions (ex_guild True) 1000 [ex_sub 1000 1 False False])))
   \<and> ex_sub 1000 1 False False
     \<in> set (snd (processExpiredSubscriptions (ex_guild False) 1000 [ex_sub 1000 1 False False]))"
  using expiry_sweep_deletion [of "ex_sub 1000 1 False False" 1000 "[ex_sub 1000 1 False False]" "ex_guild True"]
    expiry_sweep_deletion [of "ex_sub 1000 1 False False" 1000 "[ex_sub 1000 1 False False]" "ex_guild False"]
  by (simp add: getExpiredSubscriptions_def findExpired_def revocation_throws_def ex_guild_def
      ex_sub_def)

section \<open>The warning sweep\<close>

lemma sendExpirationWarningToUser_eq:
  "sendExpirationWarningToUser c u sub ty w =
     (if deliverable c u
      then (fst w @ [(u, ty)], findByIdAndUpdate (sub_id sub) (mark_notified ty) (snd w))
      else w)"
  by (cases "users_fetch c u"; cases ty)
    (simp_all add: sendExpirationWarningToUser_def deliverable_def mark_notified_def [abs_def])

lemma mark_notified_fields [simp]:
  "sub_id (mark_notified ty r) = sub_id r"
  "discordId (mark_notified ty r) = discordId r"
  "expiresAt (mark_notified ty r) = expiresAt r"
  "mark_notified ty (mark_notified ty r) = mark_notified ty r"
  "notified1Day (mark_notified OneDay r) = True"
  "notified1Day (mark_notified ThirtyMinutes r) = notified1Day r"
  by (cases ty; simp add: mark_notified_def)+

lemma warnings_loop_dms:
  "fst (snd (warnings_loop c ty xs n w)) =
     fst w @ map (\<lambda>x. (discordId x, ty)) (filter (\<lambda>x. deliverable c (discordId x)) xs)"
  by (induction xs arbitrary: n w) (simp_all add: sendExpirationWarningToUser_eq)

lemma warnings_loop_store:
  "snd (snd (warnings_loop c ty xs n w)) =
     map (\<lambda>r. if sub_id r \<in> set (map sub_id (filter (\<lambda>x. deliverable c (discordId x)) xs))
               then mark_notified ty r else r) (snd w)"
proof (induction xs arbitrary: n w)
  case Nil
  show ?case by simp
next
  case (Cons x xs)
  show ?case
  proof (cases "deliverable c (discordId x)")
    case False
    then show ?thesis
      using Cons.IH [of "Suc n" w] by (simp add: sendExpirationWarningToUser_eq)
  next
    case True
    then show ?thesis
      using Cons.IH [of "Suc n" "(fst w @ [(discordId x, ty)],
          findByIdAndUpdate (sub_id x) (mark_notified ty) (snd w))"]
      by (auto simp: sendExpirationWarningToUser_eq findByIdAndUpdate_def)
  qed
qed

lemma processExpirationWarnings_dms:
  "fst (snd (processExpirationWarnings c now now' st)) =
     map (\<lambda>x. (discordId x, OneDay))
       (filter (\<lambda>x. deliverable c (discordId x)) (getSubscriptionsExpiringIn1Day now st))
     @ map (\<lambda>x. (discordId x, ThirtyMinutes))
       (filter (\<lambda>x. deliverable c (discordId x)) (getSubscriptionsExpiringIn30Minutes now' st))"
  by (simp add: processExpirationWarnings_def Let_def warnings_loop_dms)

lemma processExpirationWarnings_store:
  "snd (snd (processExpirationWarnings c now now' st)) =
     map (\<lambda>r. if sub_id r \<in> set (map sub_id (filter (\<lambda>x. deliverable c (discordId x))
                   (getSubscriptionsExpiringIn30Minutes now' st)))
               then mark_notified ThirtyMinutes r else r)
       (map (\<lambda>r. if sub_id r \<in> set (map sub_id (filter (\<lambda>x. deliverable c (discordId x))
                   (getSubscriptionsExpiringIn1Day now st)))
               then mark_notified OneDay r else r) st)"
  by (simp add: processExpirationWarnings_def Let_def warnings_loop_store)

lemma mark_notified_flags [simp]:
  "notified ty (mark_notified ty r) = True"
  "notified ty (mark_notified (other_type ty) r) = notified ty r"
  by (cases ty; simp add: mark_notified_def notified_def other_type_def)+

lemma count_list_tagged_distinct:
  "distinct (map f xs) \<Longrightarrow> x \<in> set xs \<Longrightarrow> count_list (map (\<lambda>y. (f y, t)) xs) (f x, t) = 1"
proof (induction xs)
  case Nil
  then show ?case by simp
next
  case (Cons a xs)
  show ?case
  proof (cases "a = x")
    case True
    with Cons.prems(1) have "(f x, t) \<notin> set (map (\<lambda>y. (f y, t)) xs)" by auto
    then have "count_list (map (\<lambda>y. (f y, t)) xs) (f x, t) = 0" by (rule count_notin)
    with True show ?thesis by simp
  next
    case False
    with Cons.prems have "x \<in> set xs" "f a \<noteq> f x" "distinct (map f xs)" by auto
    with Cons.IH show ?thesis by simp
  qed
qed

lemma messages_to_length:
  "length (messages_to u dms) = count_list dms (u, ty) + count_list dms (u, other_type ty)"
proof (induction dms)
  case Nil
  show ?case by (simp add: messages_to_def)
next
  case (Cons m dms)
  obtain v t where m: "m = (v, t)" by (cases m)
  have "t = ty \<or> t = other_type ty" by (cases t; cases ty; simp add: other_type_def)
  moreover have "ty \<noteq> other_type ty" by (cases ty; simp add: other_type_def)
  ultimately show ?case using Cons.IH m by (auto simp: messages_to_def)
qed

lemma selection_props:
  "s \<in> set (warning_selection ty now now' st) \<Longrightarrow> s \<in> set st \<and> \<not> notified ty s"
  by (cases ty)
    (simp_all add: warning_selection_def notified_def getSubscriptionsExpiringIn1Day_def
      getSubscriptionsExpiringIn30Minutes_def)

lemma selection_window:
  "s \<in> set (warning_selection (other_type ty) now now' st) \<Longrightarrow> \<not> other_window_closed ty now now' s"
  by (cases ty)
    (simp_all add: warning_selection_def other_type_def other_window_closed_def
      getSubscriptionsExpiringIn1Day_def getSubscriptionsExpiringIn30Minutes_def)

lemma selection_distinct:
  "distinct (map discordId st) \<Longrightarrow>
   distinct (map discordId (filter P (warning_selection ty now now' st)))"
  by (cases ty)
    (simp_all add: warning_selection_def getSubscriptionsExpiringIn1Day_def
      getSubscriptionsExpiringIn30Minutes_def distinct_map_filter)

lemma count_other_tag:
  "t \<noteq> t' \<Longrightarrow> count_list (map (\<lambda>x. (f x, t)) xs) (u, t') = 0"
  by (induction xs) auto

lemma processExpirationWarnings_count:
  "count_list (fst (snd (processExpirationWarnings c now now' st))) (u, ty) =
     count_list (map (\<lambda>x. (discordId x, ty))
       (filter (\<lambda>x. deliverable c (discordId x)) (warning_selection ty now now' st))) (u, ty)"
  by (cases ty)
    (simp_all add: processExpirationWarnings_dms warning_selection_def count_other_tag)

lemma store_after_run:
  assumes d: "distinct (map discordId st)"
    and s: "s \<in> set st"
    and r': "r' \<in> set (snd (snd (processExpirationWarnings c now now' st)))"
    and did: "discordId r' = discordId s"
  shows "expiresAt r' = expiresAt s"
    and "s \<in> set (warning_selection ty now now' st) \<Longrightarrow> deliverable c (discordId s) \<Longrightarrow>
         notified ty r'"
proof -
  define A where "A = set (map sub_id (filter (\<lambda>x. deliverable c (discordId x))
                   (getSubscriptionsExpiringIn1Day now st)))"
  define B where "B = set (map sub_id (filter (\<lambda>x. deliverable c (discordId x))
                   (getSubscriptionsExpiringIn30Minutes now' st)))"
  define F where "F = (\<lambda>r. if sub_id r \<in> A then mark_notified OneDay r else r)"
  define G where "G = (\<lambda>r. if sub_id r \<in> B then mark_notified ThirtyMinutes r else r)"
  have st1: "snd (snd (processExpirationWarnings c now now' st)) = map G (map F st)"
    unfolding processExpirationWarnings_store A_def B_def F_def G_def ..
  from r' obtain r where r: "r \<in> set st" and eq: "r' = G (F r)"
    unfolding st1 by auto
  have "discordId (G (F r)) = discordId r" by (simp add: F_def G_def)
  with eq did have "discordId r = discordId s" by simp
  moreover from d have "inj_on discordId (set st)" by (simp add: distinct_map)
  ultimately have rs: "r = s" using r s by (auto dest: inj_onD)
  show "expiresAt r' = expiresAt s"
    by (simp add: eq rs F_def G_def)
  show "notified ty r'" if sel: "s \<in> set (warning_selection ty now now' st)"
    and del: "deliverable c (discordId s)"
  proof (cases ty)
    case OneDay
    with sel del have "sub_id s \<in> A" by (simp add: A_def warning_selection_def)
    then have "notified1Day (F s) = True" by (simp add: F_def)
    then have "notified1Day (G (F s)) = True" by (simp add: G_def)
    with OneDay show ?thesis by (simp add: eq rs notified_def)
  next
    case ThirtyMinutes
    with sel del have "sub_id s \<in> B" by (simp add: B_def warning_selection_def)
    moreover have "sub_id (F s) = sub_id s" by (simp add: F_def)
    ultimately have "G (F s) = mark_notified ThirtyMinutes (F s)" by (simp add: G_def)
    with ThirtyMinutes show ?thesis by (simp add: eq rs notified_def mark_notified_def)
  qed
qed

lemma discordId_after_run:
  "map discordId (snd (snd (processExpirationWarnings c now now' st))) = map discordId st"
  by (simp add: processExpirationWarnings_store comp_def)


lemma other_window_closed_cong:
  "expiresAt x = expiresAt s \<Longrightarrow> other_window_closed ty n n' x = other_window_closed ty n n' s"
  by (cases ty) (simp_all add: other_window_closed_def)

lemma selection_excludes_notified:
  "filter (notified ty) (warning_selection ty now now' st) = []"
  by (cases ty)
    (simp_all add: warning_selection_def notified_def getSubscriptionsExpiringIn1Day_def
      getSubscriptionsExpiringIn30Minutes_def filter_empty_conv)

lemma no_message_without_selection:
  assumes "discordId s \<notin> set (map discordId (warning_selection ty now now' st))"
  shows "count_list (fst (snd (processExpirationWarnings c now now' st))) (discordId s, ty) = 0"
proof -
  from assms have "(discordId s, ty) \<notin> set (map (\<lambda>x. (discordId x, ty))
       (filter (\<lambda>x. deliverable c (discordId x)) (warning_selection ty now now' st)))"
    by auto
  then show ?thesis
    unfolding processExpirationWarnings_count by (rule count_notin)
qed

lemma first_run_other_type:
  assumes d: "distinct (map discordId st)" and s: "s \<in> set st"
    and closed: "other_window_closed ty now now' s"
  shows "discordId s \<notin> set (map discordId (warning_selection (other_type ty) now now' st))"
proof
  assume "discordId s \<in> set (map discordId (warning_selection (other_type ty) now now' st))"
  then obtain x where x: "x \<in> set (warning_selection (other_type ty) now now' st)"
    and did: "discordId x = discordId s" by auto
  from x have "x \<in> set st" using selection_props by blast
  moreover from d have "inj_on discordId (set st)" by (simp add: distinct_map)
  ultimately have "x = s" using s did by (auto dest: inj_onD)
  with x closed selection_window show False by blast
qed

lemma later_run_other_type:
  assumes d: "distinct (map discordId st)" and s: "s \<in> set st"
    and closed: "other_window_closed ty now2 t2 s"
  shows "discordId s \<notin> set (map discordId (warning_selection (other_type ty) now2 t2
           (snd (snd (processExpirationWarnings c now1 t1 st)))))"
proof
  let ?st1 = "snd (snd (processExpirationWarnings c now1 t1 st))"
  assume "discordId s \<in> set (map discordId (warning_selection (other_type ty) now2 t2 ?st1))"
  then obtain x where x: "x \<in> set (warning_selection (other_type ty) now2 t2 ?st1)"
    and did: "discordId x = discordId s" by auto
  from x have mem: "x \<in> set ?st1" using selection_props by blast
  from closed have "other_window_closed ty now2 t2 x"
    by (simp only: other_window_closed_cong [OF store_after_run(1) [OF d s mem did]])
  with x selection_window show False by blast
qed

lemma later_run_same_type:
  assumes d: "distinct (map discordId st)"
    and sel: "s \<in> set (warning_selection ty now1 t1 st)"
    and del: "deliverable c (discordId s)"
  shows "discordId s \<notin> set (map discordId (warning_selection ty now2 t2
           (snd (snd (processExpirationWarnings c now1 t1 st)))))"
proof
  let ?st1 = "snd (snd (processExpirationWarnings c now1 t1 st))"
  assume "discordId s \<in> set (map discordId (warning_selection ty now2 t2 ?st1))"
  then obtain x where x: "x \<in> set (warning_selection ty now2 t2 ?st1)"
    and did: "discordId x = discordId s" by auto
  from x have mem: "x \<in> set ?st1" and flag: "\<not> notified ty x"
    using selection_props by blast+
  from sel have s: "s \<in> set st" using selection_props by blast
  from store_after_run(2) [OF d s mem did sel del] flag show False by simp
qed

text \<open>
  C7. For either kind of warning, 1-day or 30-minute: in a collection with one record
  per subscriber, let the query of that kind select a record at the first run of the
  warning sweep and let the message to its subscriber get through, so that the flag of
  that kind is written. Then the first run sends the subscriber exactly one warning of
  that kind; the query of that kind in any later run on the resulting collection does
  not select the subscriber's record, and the later run sends the subscriber no warning
  of that kind, whatever its clock readings and whatever the chat platform answers
  then. The selection of either kind never holds a record whose flag of that kind is
  true, in any collection. And when at both runs the record is outside the time window
  of the other kind, as it is when both runs fall in the same eligibility window, the
  two runs together send the subscriber exactly one message in all.
\<close>

theorem no_duplicate_warning:
  assumes "distinct (map discordId st)"
    and "s \<in> set (warning_selection ty now1 t1 st)"
    and "deliverable c (discordId s)"
  shows "count_list (fst (snd (processExpirationWarnings c now1 t1 st))) (discordId s, ty) = 1
       \<and> discordId s \<notin> set (map discordId (warning_selection ty now2 t2
             (snd (snd (processExpirationWarnings c now1 t1 st)))))
       \<and> count_list (fst (snd (processExpirationWarnings c' now2 t2
             (snd (snd (processExpirationWarnings c now1 t1 st)))))) (discordId s, ty) = 0
       \<and> filter (notified ty) (warning_selection ty now2 t2 st') = []
       \<and> (other_window_closed ty now1 t1 s \<and> other_window_closed ty now2 t2 s \<longrightarrow>
            length (messages_to (discordId s)
              (fst (snd (processExpirationWarnings c now1 t1 st))
               @ fst (snd (processExpirationWarnings c' now2 t2
                   (snd (snd (processExpirationWarnings c now1 t1 st))))))) = 1)"
proof -
  let ?u = "discordId s"
  let ?dms1 = "fst (snd (processExpirationWarnings c now1 t1 st))"
  let ?st1 = "snd (snd (processExpirationWarnings c now1 t1 st))"
  let ?dms2 = "fst (snd (processExpirationWarnings c' now2 t2 ?st1))"
  let ?L = "filter (\<lambda>x. deliverable c (discordId x)) (warning_selection ty now1 t1 st)"
  from assms(2) have s: "s \<in> set st" using selection_props by blast
  from assms(2,3) have "s \<in> set ?L" by simp
  moreover from assms(1) have "distinct (map discordId ?L)" by (rule selection_distinct)
  ultimately have "count_list (map (\<lambda>x. (discordId x, ty)) ?L) (?u, ty) = 1"
    by (rule count_list_tagged_distinct [rotated])
  then have one: "count_list ?dms1 (?u, ty) = 1"
    by (simp add: processExpirationWarnings_count)
  have again: "?u \<notin> set (map discordId (warning_selection ty now2 t2 ?st1))"
    using assms by (rule later_run_same_type)
  then have zero: "count_list ?dms2 (?u, ty) = 0"
    by (rule no_message_without_selection)
  have total: "length (messages_to ?u (?dms1 @ ?dms2)) = 1"
    if c1: "other_window_closed ty now1 t1 s" and c2: "other_window_closed ty now2 t2 s"
  proof -
    have "count_list ?dms1 (?u, other_type ty) = 0"
      using first_run_other_type [OF assms(1) s c1] by (rule no_message_without_selection)
    moreover have "count_list ?dms2 (?u, other_type ty) = 0"
      using later_run_other_type [OF assms(1) s c2] by (rule no_message_without_selection)
    ultimately show ?thesis
      using one zero by (simp add: messages_to_length [of _ _ ty])
  qed
  from one again zero total show ?thesis
    by (simp add: selection_excludes_notified)
qed

theorem no_duplicate_warning_witness:
  "length (messages_to ''U1''
      (fst (snd (processExpirationWarnings (ex_guild True) 0 5
          [ex_sub 86700000 1 False False, ex_sub2 2000000]))
       @ fst (snd (processExpirationWarnings (ex_guild True) 120000 120005
          (snd (snd (processExpirationWarnings (ex_guild True) 0 5
             [ex_sub 86700000 1 False False, ex_sub2 2000000])))))))
     = 1
   \<and> length (messages_to ''U2''
      (fst (snd (processExpirationWarnings (ex_guild True) 0 5
          [ex_sub 86700000 1 False False, ex_sub2 2000000]))
       @ fst (snd (processExpirationWarnings (ex_guild True) 120000 120005
          (snd (snd (processExpirationWarnings (ex_guild True) 0 5
             [ex_sub 86700000 1 False False, ex_sub2 2000000])))))))
     = 1
   \<and> ex_sub 86700000 1 False False
       \<in> set (getSubscriptionsExpiringIn1Day 120000 [ex_sub 86700000 1 False False, ex_sub2 2000000])
   \<and> ex_sub2 2000000
       \<in> set (getSubscriptionsExpiringIn30Minutes 120005 [ex_sub 86700000 1 False False, ex_sub2 2000000])"
  using no_duplicate_warning [where st = "[ex_sub 86700000 1 False False, ex_sub2 2000000]"
      and s = "ex_sub 86700000 1 False False" and ty = OneDay and ?now1.0 = 0 and ?t1.0 = 5
      and c = "ex_guild True" and ?now2.0 = 120000 and ?t2.0 = 120005 and c' = "ex_guild True"]
    no_duplicate_warning [where st = "[ex_sub 86700000 1 False False, ex_sub2 2000000]"
      and s = "ex_sub2 2000000" and ty = ThirtyMinutes and ?now1.0 = 0 and ?t1.0 = 5
      and c = "ex_guild True" and ?now2.0 = 120000 and ?t2.0 = 120005 and c' = "ex_guild True"]
  by (simp add: warning_selection_def other_window_closed_def getSubscriptionsExpiringIn1Day_def
      getSubscriptionsExpiringIn30Minutes_def deliverable_def ex_guild_def ex_sub_def ex_sub2_def)


end
